theory Spec2Isabelle
  imports Complex_Main "HOL-Library.Sublist"
begin

section \<open>JavaScript numbers\<close>

text \<open>
  The scroll engine computes on JavaScript numbers. A finite number is modelled by the real
  it denotes and the arithmetic operations below are exact (the sign of zero is not
  modelled); the three special values are kept, since a division by zero does not raise in
  JavaScript but yields \<open>Infinity\<close>, \<open>-Infinity\<close> or \<open>NaN\<close>, and these values then flow
  through every later operation. A zero divisor is taken as \<open>+0\<close>, which is what the
  difference of two equal finite numbers is. Rounding to binary64 is a separate function,
  \<open>binary64\<close> below, applied after each operation where a statement depends on it.
\<close>

datatype number = Num real | PosInf | NegInf | NaN

instantiation number :: "{plus, minus, uminus, times, inverse, ord}"
begin

fun uminus_number :: "number \<Rightarrow> number" where
  "uminus_number (Num a) = Num (- a)"
| "uminus_number PosInf = NegInf"
| "uminus_number NegInf = PosInf"
| "uminus_number NaN = NaN"

fun plus_number :: "number \<Rightarrow> number \<Rightarrow> number" where
  "plus_number NaN y = NaN"
| "plus_number x NaN = NaN"
| "plus_number (Num a) (Num b) = Num (a + b)"
| "plus_number PosInf NegInf = NaN"
| "plus_number NegInf PosInf = NaN"
| "plus_number PosInf y = PosInf"
| "plus_number x PosInf = PosInf"
| "plus_number NegInf y = NegInf"
| "plus_number x NegInf = NegInf"

definition minus_number :: "number \<Rightarrow> number \<Rightarrow> number" where
  "minus_number x y = x + (- y)"

fun times_number :: "number \<Rightarrow> number \<Rightarrow> number" where
  "times_number NaN y = NaN"
| "times_number x NaN = NaN"
| "times_number (Num a) (Num b) = Num (a * b)"
| "times_number (Num a) PosInf = (if a = 0 then NaN else if 0 < a then PosInf else NegInf)"
| "times_number (Num a) NegInf = (if a = 0 then NaN else if 0 < a then NegInf else PosInf)"
| "times_number PosInf (Num b) = (if b = 0 then NaN else if 0 < b then PosInf else NegInf)"
| "times_number NegInf (Num b) = (if b = 0 then NaN else if 0 < b then NegInf else PosInf)"
| "times_number PosInf PosInf = PosInf"
| "times_number PosInf NegInf = NegInf"
| "times_number NegInf PosInf = NegInf"
| "times_number NegInf NegInf = PosInf"

fun divide_number :: "number \<Rightarrow> number \<Rightarrow> number" where
  "divide_number NaN y = NaN"
| "divide_number x NaN = NaN"
| "divide_number (Num a) (Num b) =
     (if b = 0 then (if a = 0 then NaN else if 0 < a then PosInf else NegInf)
      else Num (a / b))"
| "divide_number (Num a) PosInf = Num 0"
| "divide_number (Num a) NegInf = Num 0"
| "divide_number PosInf (Num b) = (if 0 \<le> b then PosInf else NegInf)"
| "divide_number NegInf (Num b) = (if 0 \<le> b then NegInf else PosInf)"
| "divide_number PosInf y = NaN"
| "divide_number NegInf y = NaN"

definition inverse_number :: "number \<Rightarrow> number" where
  "inverse_number x = divide (Num 1) x"

fun less_number :: "number \<Rightarrow> number \<Rightarrow> bool" where
  "less_number NaN y = False"
| "less_number x NaN = False"
| "less_number (Num a) (Num b) = (a < b)"
| "less_number x NegInf = False"
| "less_number NegInf y = True"
| "less_number PosInf y = False"
| "less_number x PosInf = True"

fun less_eq_number :: "number \<Rightarrow> number \<Rightarrow> bool" where
  "less_eq_number NaN y = False"
| "less_eq_number x NaN = False"
| "less_eq_number (Num a) (Num b) = (a \<le> b)"
| "less_eq_number NegInf y = True"
| "less_eq_number x PosInf = True"
| "less_eq_number x NegInf = False"
| "less_eq_number PosInf y = False"

instance ..

end

text \<open>\<open>Math.min\<close> and \<open>Math.max\<close> return \<open>NaN\<close> as soon as one argument is \<open>NaN\<close>.\<close>

definition Math_min :: "number \<Rightarrow> number \<Rightarrow> number" where
  "Math_min x y = (if x = NaN \<or> y = NaN then NaN else if x \<le> y then x else y)"

definition Math_max :: "number \<Rightarrow> number \<Rightarrow> number" where
  "Math_max x y = (if x = NaN \<or> y = NaN then NaN else if x \<le> y then y else x)"

fun Math_abs :: "number \<Rightarrow> number" where
  "Math_abs (Num a) = Num \<bar>a\<bar>"
| "Math_abs PosInf = PosInf"
| "Math_abs NegInf = PosInf"
| "Math_abs NaN = NaN"

fun Math_exp :: "number \<Rightarrow> number" where
  "Math_exp (Num a) = Num (exp a)"
| "Math_exp PosInf = PosInf"
| "Math_exp NegInf = Num 0"
| "Math_exp NaN = NaN"

text \<open>\<open>Math.pow\<close> is only called with the literal exponents 3 and 4.\<close>

fun Math_pow :: "number \<Rightarrow> nat \<Rightarrow> number" where
  "Math_pow (Num a) n = Num (a ^ n)"
| "Math_pow PosInf n = (if n = 0 then Num 1 else PosInf)"
| "Math_pow NegInf n = (if n = 0 then Num 1 else if even n then PosInf else NegInf)"
| "Math_pow NaN n = (if n = 0 then Num 1 else NaN)"

definition Math_PI :: number where
  "Math_PI = Num pi"

section \<open>Easing and smoothing\<close>

definition easeInOutCubic :: "number \<Rightarrow> number" where
  "easeInOutCubic t =
     (if t < Num 0.5 then Num 4 * t * t * t
      else Num 1 - Math_pow (Num (-2) * t + Num 2) 3 / Num 2)"

definition easeOutQuart :: "number \<Rightarrow> number" where
  "easeOutQuart t = Num 1 - Math_pow (Num 1 - t) 4"

definition getSceneOpacity :: "number \<Rightarrow> number \<Rightarrow> number \<Rightarrow> number" where
  "getSceneOpacity cameraZ sceneZ fadeRange =
     (let distance = Math_abs (cameraZ - sceneZ) in
      if fadeRange < distance then Num 0
      else let t = Num 1 - distance / fadeRange in easeOutQuart t)"

definition smoothDamp :: "number \<Rightarrow> number \<Rightarrow> number \<Rightarrow> number \<Rightarrow> number" where
  "smoothDamp current target smoothing delta =
     (let factor = Num 1 - Math_exp (- smoothing * delta * Num 60) in
      current + (target - current) * factor)"

section \<open>Rounding to binary64\<close>

text \<open>
  Round to nearest, ties to even: a nonzero real with binary exponent \<open>e\<close> (at least -1022,
  the exponent of the subnormal numbers) is rounded to a multiple of \<open>2^(e - 52)\<close>, and a
  result of magnitude \<open>2^1024\<close> or more is an infinity.
\<close>

definition roundHalfEven :: "real \<Rightarrow> int" where
  "roundHalfEven y =
     (let f = \<lfloor>y\<rfloor> in
      if y - of_int f < 1 / 2 then f
      else if 1 / 2 < y - of_int f then f + 1
      else if even f then f else f + 1)"

definition binary64 :: "real \<Rightarrow> number" where
  "binary64 x =
     (if x = 0 then Num 0
      else
        (let e = max \<lfloor>log 2 \<bar>x\<bar>\<rfloor> (- 1022);
             ulp = 2 powi (e - 52);
             r = of_int (roundHalfEven (x / ulp)) * ulp
         in if 2 ^ 1024 \<le> \<bar>r\<bar> then (if 0 < x then PosInf else NegInf) else Num r))"

text \<open>The rounding of the result of an exact operation; the special values are kept.\<close>

fun fl :: "number \<Rightarrow> number" where
  "fl (Num a) = binary64 a"
| "fl PosInf = PosInf"
| "fl NegInf = NegInf"
| "fl NaN = NaN"

text \<open>
  \<open>smoothDamp\<close> on binary64 numbers: the same expression, every multiplication,
  subtraction and addition rounded, and \<open>Math.exp\<close> taken as the correctly rounded
  exponential.
\<close>

definition smoothDamp_binary64 :: "number \<Rightarrow> number \<Rightarrow> number \<Rightarrow> number \<Rightarrow> number" where
  "smoothDamp_binary64 current target smoothing delta =
     (let factor = fl (Num 1 - fl (Math_exp (fl (fl (- smoothing * delta) * Num 60))))
      in fl (current + fl (fl (target - current) * factor)))"

section \<open>Pause zones\<close>

record PauseZone =
  center :: number
  pauseAmount :: number

definition PAUSE_ZONES :: "PauseZone list" where
  "PAUSE_ZONES =
     [\<lparr>center = Num 750, pauseAmount = Num 0.015\<rparr>,
      \<lparr>center = Num 1750, pauseAmount = Num 0.015\<rparr>,
      \<lparr>center = Num 2750, pauseAmount = Num 0.015\<rparr>,
      \<lparr>center = Num 3750, pauseAmount = Num 0.015\<rparr>,
      \<lparr>center = Num 4750, pauseAmount = Num 0.015\<rparr>,
      \<lparr>center = Num 5750, pauseAmount = Num 0.015\<rparr>,
      \<lparr>center = Num 6750, pauseAmount = Num 0.015\<rparr>]"

text \<open>
  The \<open>for (const zone of PAUSE_ZONES)\<close> loop of \<open>applyScrollPauses\<close>, with its two loop
  variables: a zone that claims the value returns at once, a zone that has been passed
  adds its pause amount, and the value after the loop is \<open>Math.min(1, ...)\<close>.
\<close>

fun pauseLoop :: "PauseZone list \<Rightarrow> number \<Rightarrow> number \<Rightarrow> number" where
  "pauseLoop [] adjustedProgress accumulatedPause =
     Math_min (Num 1) (adjustedProgress - accumulatedPause)"
| "pauseLoop (zone # zones) adjustedProgress accumulatedPause =
     (let zoneProgressCenter = center zone / Num 7000;
          pauseStart = zoneProgressCenter - Num 0.01;
          pauseEnd = zoneProgressCenter + pauseAmount zone + Num 0.01
      in
      if pauseStart \<le> adjustedProgress - accumulatedPause \<and>
         adjustedProgress - accumulatedPause \<le> pauseEnd
      then
        (let distFromStart = adjustedProgress - accumulatedPause - pauseStart;
             zoneWidth = pauseEnd - pauseStart
         in
         if distFromStart < zoneWidth * Num 0.3 then pauseStart + distFromStart * Num 0.3
         else if zoneWidth * Num 0.7 < distFromStart then
           (let exitProgress = (distFromStart - zoneWidth * Num 0.7) / (zoneWidth * Num 0.3)
            in zoneProgressCenter + exitProgress * Num 0.01)
         else zoneProgressCenter)
      else if pauseEnd < adjustedProgress - accumulatedPause
        then pauseLoop zones adjustedProgress (accumulatedPause + pauseAmount zone)
        else pauseLoop zones adjustedProgress accumulatedPause)"

text \<open>The body of \<open>applyScrollPauses\<close>, for a given zone table.\<close>

definition applyScrollPausesWith :: "PauseZone list \<Rightarrow> number \<Rightarrow> number" where
  "applyScrollPausesWith zones rawProgress =
     (let totalPauseAmount = foldl (\<lambda>sum zone. sum + pauseAmount zone) (Num 0) zones;
          effectiveScrollRange = Num 1 + totalPauseAmount;
          adjustedProgress = rawProgress * effectiveScrollRange
      in pauseLoop zones adjustedProgress (Num 0))"

definition applyScrollPauses :: "number \<Rightarrow> number" where
  "applyScrollPauses rawProgress = applyScrollPausesWith PAUSE_ZONES rawProgress"

section \<open>The scroll handler of the camera controller\<close>

record ScrollState =
  progress :: number
  cameraZ :: number
  currentSection :: string
  velocity :: number

text \<open>
  What the handler reads from the container element (\<open>getBoundingClientRect().top\<close> and
  \<open>offsetHeight\<close>) and from the browser (\<open>performance.now()\<close>, \<open>window.innerHeight\<close>).
\<close>

record HTMLElement =
  rect_top :: number
  offsetHeight :: number

record Browser =
  performance_now :: number
  innerHeight :: number

text \<open>
  The module-level variables (\<open>scrollState\<close>, \<open>containerElement\<close>, \<open>lastScrollTime\<close>,
  \<open>lastProgress\<close>) and the four target refs of \<open>CameraController\<close>.
\<close>

record Controller =
  scrollState :: ScrollState
  containerElement :: "HTMLElement option"
  lastScrollTime :: number
  lastProgress :: number
  targetZ :: number
  targetY :: number
  targetFov :: number
  targetRotationZ :: number

definition initialController :: Controller where
  "initialController =
     \<lparr>scrollState = \<lparr>progress = Num 0, cameraZ = Num 0, currentSection = ''portal'',
                      velocity = Num 0\<rparr>,
      containerElement = None, lastScrollTime = Num 0, lastProgress = Num 0,
      targetZ = Num 0, targetY = Num 0, targetFov = Num 50, targetRotationZ = Num 0\<rparr>"

definition setContainerRef :: "HTMLElement option \<Rightarrow> Controller \<Rightarrow> Controller" where
  "setContainerRef el s = s\<lparr>containerElement := el\<rparr>"

text \<open>The clamped quotient \<open>rawProgress\<close> of \<open>handleScroll\<close>.\<close>

definition rawProgressOf :: "HTMLElement \<Rightarrow> Browser \<Rightarrow> number" where
  "rawProgressOf el w =
     (let containerHeight = offsetHeight el;
          viewportHeight = innerHeight w;
          scrollableDistance = containerHeight - viewportHeight;
          scrolled = - rect_top el
      in Math_max (Num 0) (Math_min (Num 1) (scrolled / scrollableDistance)))"

text \<open>The chain of comparisons that names the current section.\<close>

definition sectionOf :: "number \<Rightarrow> string" where
  "sectionOf z =
     (if z < Num 500 then ''portal''
      else if z < Num 1000 then ''eventX''
      else if z < Num 1500 then ''vortex''
      else if z < Num 2000 then ''battle''
      else if z < Num 2500 then ''curtain''
      else if z < Num 3000 then ''spotlight''
      else if z < Num 3500 then ''paintTunnel''
      else if z < Num 4000 then ''mural''
      else if z < Num 4500 then ''dollyZoom''
      else if z < Num 5000 then ''unveil''
      else if z < Num 5500 then ''falling''
      else if z < Num 6000 then ''beatTheStreet''
      else if z < Num 6500 then ''glitch''
      else ''parody'')"

text \<open>The three windowed targets: dolly zoom, fall and glitch spin.\<close>

definition fovTargetOf :: "number \<Rightarrow> number" where
  "fovTargetOf z =
     (if Num 4100 \<le> z \<and> z \<le> Num 4400 then
        (let dollyProgress = easeInOutCubic ((z - Num 4100) / Num 300)
         in Num 50 + Num 30 * dollyProgress)
      else if Num 4400 < z \<and> z < Num 4700 then
        (let returnProgress = easeInOutCubic ((z - Num 4400) / Num 300)
         in Num 80 - Num 30 * returnProgress)
      else Num 50)"

definition yTargetOf :: "number \<Rightarrow> number" where
  "yTargetOf z =
     (if Num 5100 \<le> z \<and> z \<le> Num 5400 then
        (let fallProgress = easeInOutCubic ((z - Num 5100) / Num 300)
         in Num (- 500) * fallProgress)
      else if Num 5400 < z then Num (- 500)
      else Num 0)"

definition rotationTargetOf :: "number \<Rightarrow> number" where
  "rotationTargetOf z =
     (if Num 6300 \<le> z \<and> z \<le> Num 6450 then
        (let spinProgress = easeInOutCubic ((z - Num 6300) / Num 150)
         in spinProgress * Math_PI * Num 2)
      else if Num 6450 < z \<and> z < Num 6600 then
        (let resetProgress = easeInOutCubic ((z - Num 6450) / Num 150)
         in Math_PI * Num 2 * (Num 1 - resetProgress))
      else Num 0)"

definition handleScroll :: "Browser \<Rightarrow> Controller \<Rightarrow> Controller" where
  "handleScroll w s =
     (case containerElement s of
        None \<Rightarrow> s
      | Some el \<Rightarrow>
          (let now = performance_now w;
               rawProgress = rawProgressOf el w;
               progress' = applyScrollPauses rawProgress;
               deltaTime = (now - lastScrollTime s) / Num 1000;
               velocity' = (if Num 0 < deltaTime then (progress' - lastProgress s) / deltaTime
                            else Num 0);
               cameraZ' = progress' * Num 7000;
               z = cameraZ'
           in s\<lparr>scrollState :=
                  \<lparr>progress = progress', cameraZ = cameraZ',
                   currentSection = sectionOf z, velocity = velocity'\<rparr>,
                lastScrollTime := now,
                lastProgress := progress',
                targetZ := cameraZ',
                targetFov := fovTargetOf z,
                targetY := yTargetOf z,
                targetRotationZ := rotationTargetOf z\<rparr>))"

section \<open>The particle system's frame callback\<close>

record Vector3 =
  vec_x :: number
  vec_y :: number
  vec_z :: number

record Particle =
  position :: Vector3
  particle_velocity :: Vector3
  scale :: number

text \<open>
  The matrix that \<open>updateMatrix\<close> composes from a position and a scale; the rotation of the
  helper object is never changed.
\<close>

datatype Matrix4 = Compose Vector3 Vector3

record Object3D =
  dummy_position :: Vector3
  dummy_scale :: Vector3
  dummy_matrix :: Matrix4

record InstancedMesh =
  visible :: bool
  instanceMatrix :: "Matrix4 list"
  needsUpdate :: bool

record Material =
  opacity :: number

record ParticleSystemProps =
  particle_size :: number
  zStart :: number
  zEnd :: number
  spread :: number
  baseOpacity :: number

record ParticleSystem =
  meshRef :: "InstancedMesh option"
  materialRef :: "Material option"
  currentOpacity :: number
  particles :: "Particle list"
  dummy :: Object3D

definition multiplyScalar :: "Vector3 \<Rightarrow> number \<Rightarrow> Vector3" where
  "multiplyScalar v k = \<lparr>vec_x = vec_x v * k, vec_y = vec_y v * k, vec_z = vec_z v * k\<rparr>"

definition addVec :: "Vector3 \<Rightarrow> Vector3 \<Rightarrow> Vector3" where
  "addVec u v = \<lparr>vec_x = vec_x u + vec_x v, vec_y = vec_y u + vec_y v, vec_z = vec_z u + vec_z v\<rparr>"

text \<open>One particle of the \<open>forEach\<close> body: integrate, then wrap x and y.\<close>

definition moveParticle :: "ParticleSystemProps \<Rightarrow> number \<Rightarrow> Particle \<Rightarrow> Particle" where
  "moveParticle props delta particle =
     (let p0 = addVec (position particle) (multiplyScalar (particle_velocity particle) delta);
          p1 = (if spread props / Num 2 < vec_x p0 then p0\<lparr>vec_x := - spread props / Num 2\<rparr> else p0);
          p2 = (if vec_x p1 < - spread props / Num 2 then p1\<lparr>vec_x := spread props / Num 2\<rparr> else p1);
          p3 = (if spread props / Num 2 < vec_y p2 then p2\<lparr>vec_y := - spread props / Num 2\<rparr> else p2);
          p4 = (if vec_y p3 < - spread props / Num 2 then p3\<lparr>vec_y := spread props / Num 2\<rparr> else p3)
      in particle\<lparr>position := p4\<rparr>)"

text \<open>
  The \<open>particles.forEach((particle, i) => ...)\<close> loop: the moved particles, the helper
  object and the instance matrices after the remaining particles, from index \<open>i\<close> on.
\<close>

fun forEachParticle ::
  "ParticleSystemProps \<Rightarrow> number \<Rightarrow> nat \<Rightarrow> Particle list \<Rightarrow> Object3D \<Rightarrow> Matrix4 list
     \<Rightarrow> Particle list \<times> Object3D \<times> Matrix4 list" where
  "forEachParticle props delta i [] d ms = ([], d, ms)"
| "forEachParticle props delta i (particle # rest) d ms =
     (let particle' = moveParticle props delta particle;
          k = scale particle' * particle_size props;
          d1 = d\<lparr>dummy_position := position particle',
                 dummy_scale := \<lparr>vec_x = k, vec_y = k, vec_z = k\<rparr>\<rparr>;
          d2 = d1\<lparr>dummy_matrix := Compose (dummy_position d1) (dummy_scale d1)\<rparr>;
          ms' = ms[i := dummy_matrix d2]
      in case forEachParticle props delta (Suc i) rest d2 ms' of
           (rest', d', ms'') \<Rightarrow> (particle' # rest', d', ms''))"

definition particleFrame ::
  "ParticleSystemProps \<Rightarrow> number \<Rightarrow> number \<Rightarrow> ParticleSystem \<Rightarrow> ParticleSystem" where
  "particleFrame props camera_z delta s =
     (case (meshRef s, materialRef s) of
        (Some mesh, Some material) \<Rightarrow>
          (let cameraZ' = camera_z;
               centerZ = (zStart props + zEnd props) / Num 2;
               range' = (zEnd props - zStart props) / Num 2 + Num 400;
               distance = Math_abs (cameraZ' - centerZ);
               targetOpacity =
                 (if distance < range'
                  then baseOpacity props * easeOutQuart (Num 1 - distance / range')
                  else Num 0);
               opacity' = smoothDamp (currentOpacity s) targetOpacity (Num 0.1) delta;
               material' = material\<lparr>opacity := opacity'\<rparr>;
               mesh' = mesh\<lparr>visible := (Num 0.01 < opacity')\<rparr>;
               s' = s\<lparr>currentOpacity := opacity', materialRef := Some material',
                      meshRef := Some mesh'\<rparr>
           in if \<not> visible mesh' then s'
              else
                (case forEachParticle props delta 0 (particles s') (dummy s')
                        (instanceMatrix mesh') of
                   (ps, d, ms) \<Rightarrow>
                     s'\<lparr>particles := ps, dummy := d,
                        meshRef := Some (mesh'\<lparr>instanceMatrix := ms, needsUpdate := True\<rparr>)\<rparr>))
      | _ \<Rightarrow> s)"

section \<open>The end-to-end scroll scenario\<close>

text \<open>The configured section names, in the order of their breakpoints.\<close>

definition SECTION_NAMES :: "string list" where
  "SECTION_NAMES =
     [''portal'', ''eventX'', ''vortex'', ''battle'', ''curtain'', ''spotlight'', ''paintTunnel'',
      ''mural'', ''dollyZoom'', ''unveil'', ''falling'', ''beatTheStreet'', ''glitch'', ''parody'']"

text \<open>
  The values that \<open>currentSection\<close> takes over successive invocations of the handler, each
  with its own readings of the browser and of the container.
\<close>

fun sectionsVisited :: "(Browser \<times> HTMLElement) list \<Rightarrow> Controller \<Rightarrow> string list" where
  "sectionsVisited [] s = []"
| "sectionsVisited ((w, el) # events) s =
     (let s' = handleScroll w (setContainerRef (Some el) s)
      in currentSection (scrollState s') # sectionsVisited events s')"

text \<open>
  A linear sweep in \<open>n\<close> steps: the container, five viewports tall in a viewport of
  height 800, is scrolled from 0 to 3200 in equal steps, one invocation every 16 ms.
\<close>

definition linearSweep :: "nat \<Rightarrow> (Browser \<times> HTMLElement) list" where
  "linearSweep n =
     map (\<lambda>k. (\<lparr>performance_now = Num (16 * real k), innerHeight = Num 800\<rparr>,
               \<lparr>rect_top = Num (- (3200 * real k / real n)), offsetHeight = Num 4000\<rparr>))
       [0..<Suc n]"

section \<open>Auxiliary definitions for the proofs\<close>

text \<open>
  A zone table is well spaced from \<open>L\<close> on when every zone has a finite centre and the pause
  amount 0.015 of the configured zones, its band starts at or after \<open>L\<close>, its ramp ends at or
  before 1, and the next band starts after that ramp.
\<close>

fun spaced :: "real \<Rightarrow> PauseZone list \<Rightarrow> bool" where
  "spaced L [] = True"
| "spaced L (zone # zones) =
     (case center zone of
        Num c \<Rightarrow> pauseAmount zone = Num 0.015 \<and> L \<le> c / 7000 - 0.01 \<and> c / 7000 + 0.01 \<le> 1 \<and>
                 spaced (c / 7000 + 0.01) zones
      | _ \<Rightarrow> False)"

text \<open>The value returned inside the band of a zone with centre \<open>C\<close>, in closed form.\<close>

definition zoneOutput :: "real \<Rightarrow> real \<Rightarrow> real" where
  "zoneOutput C x =
     (if x < C + 0.0005 then C - 0.01 + (x - (C - 0.01)) * 0.3
      else if C + 0.0145 < x then C + (x - (C + 0.0145)) / 0.0105 * 0.01
      else C)"

text \<open>A particle system with one particle, and its props, for concrete frames.\<close>

definition demoParticles :: ParticleSystem where
  "demoParticles =
     \<lparr>meshRef = Some \<lparr>visible = True,
                       instanceMatrix = [Compose \<lparr>vec_x = Num 1, vec_y = Num 2, vec_z = Num 3\<rparr>
                                                 \<lparr>vec_x = Num 2, vec_y = Num 2, vec_z = Num 2\<rparr>],
                       needsUpdate = False\<rparr>,
      materialRef = Some \<lparr>opacity = Num 0.6\<rparr>,
      currentOpacity = Num 0,
      particles = [\<lparr>position = \<lparr>vec_x = Num 1, vec_y = Num 2, vec_z = Num 3\<rparr>,
                    particle_velocity = \<lparr>vec_x = Num 0.25, vec_y = Num (- 0.25), vec_z = Num 0.125\<rparr>,
                    scale = Num 1\<rparr>],
      dummy = \<lparr>dummy_position = \<lparr>vec_x = Num 1, vec_y = Num 2, vec_z = Num 3\<rparr>,
               dummy_scale = \<lparr>vec_x = Num 2, vec_y = Num 2, vec_z = Num 2\<rparr>,
               dummy_matrix = Compose \<lparr>vec_x = Num 1, vec_y = Num 2, vec_z = Num 3\<rparr>
                                      \<lparr>vec_x = Num 2, vec_y = Num 2, vec_z = Num 2\<rparr>\<rparr>\<rparr>"

definition demoProps :: ParticleSystemProps where
  "demoProps = \<lparr>particle_size = Num 2, zStart = Num 0, zEnd = Num 1000, spread = Num 500,
                 baseOpacity = Num 0.6\<rparr>"

text \<open>
  The position of the section of a finite depth in the breakpoint table, the real behind a
  finite number, and the position of the section reached from a raw progress.
\<close>

definition sectionIndex :: "real \<Rightarrow> nat" where
  "sectionIndex z =
     (if z < 500 then 0 else if z < 1000 then 1 else if z < 1500 then 2
      else if z < 2000 then 3 else if z < 2500 then 4 else if z < 3000 then 5
      else if z < 3500 then 6 else if z < 4000 then 7 else if z < 4500 then 8
      else if z < 5000 then 9 else if z < 5500 then 10 else if z < 6000 then 11
      else if z < 6500 then 12 else 13)"

fun realOf :: "number \<Rightarrow> real" where
  "realOf (Num a) = a"
| "realOf PosInf = 0"
| "realOf NegInf = 0"
| "realOf NaN = 0"

definition progressIndex :: "real \<Rightarrow> nat" where
  "progressIndex r = sectionIndex (realOf (applyScrollPauses (Num r)) * 7000)"

text \<open>
  For each section a raw progress \<open>l\<close> such that the whole interval from \<open>l\<close> to
  \<open>l + 1/16\<close> is mapped into that section.
\<close>

definition sectionSamples :: "real list" where
  "sectionSamples =
     [0, 0.065, 0.143, 0.208, 0.286, 0.351, 0.429, 0.494, 0.572, 0.637, 0.715, 0.779, 0.858,
      0.922]"

section \<open>Arithmetic on finite numbers\<close>

lemma Num_minus [simp]: "Num a - Num b = Num (a - b)"
  by (simp add: minus_number_def)

lemma Math_min_Num [simp]: "Math_min (Num a) (Num b) = Num (min a b)"
  by (simp add: Math_min_def min_def)

lemma Math_max_Num [simp]: "Math_max (Num a) (Num b) = Num (max a b)"
  by (simp add: Math_max_def max_def)

lemma number_le_not_less: "a \<le> b \<Longrightarrow> \<not> b < (a::number)"
  by (cases a; cases b) auto

section \<open>The pause-zone loop on well-spaced tables\<close>

lemma spaced_Cons:
  "spaced L (zone # zones) \<Longrightarrow>
     \<exists>c. center zone = Num c \<and> pauseAmount zone = Num 0.015 \<and> L \<le> c / 7000 - 0.01 \<and>
         c / 7000 + 0.01 \<le> 1 \<and> spaced (c / 7000 + 0.01) zones"
  by (cases "center zone") auto

lemma zoneOutput_bounds:
  "C - 0.01 \<le> x \<Longrightarrow> x \<le> C + 0.025 \<Longrightarrow> C - 0.01 \<le> zoneOutput C x \<and> zoneOutput C x \<le> C + 0.01"
  by (simp add: zoneOutput_def)

lemma zoneOutput_mono:
  "C - 0.01 \<le> x1 \<Longrightarrow> x1 \<le> x2 \<Longrightarrow> zoneOutput C x1 \<le> zoneOutput C x2"
  by (auto simp: zoneOutput_def; argo)

lemma pauseLoop_inside:
  assumes "center zone = Num c" "pauseAmount zone = Num 0.015"
    and "c / 7000 - 0.01 \<le> a - acc" "a - acc \<le> c / 7000 + 0.025"
  shows "pauseLoop (zone # zones) (Num a) (Num acc) = Num (zoneOutput (c / 7000) (a - acc))"
  using assms by (simp add: Let_def zoneOutput_def)

lemma pauseLoop_outside:
  assumes "center zone = Num c" "pauseAmount zone = Num 0.015"
  shows "a - acc < c / 7000 - 0.01 \<Longrightarrow>
           pauseLoop (zone # zones) (Num a) (Num acc) = pauseLoop zones (Num a) (Num acc)"
    and "c / 7000 + 0.025 < a - acc \<Longrightarrow>
           pauseLoop (zone # zones) (Num a) (Num acc) = pauseLoop zones (Num a) (Num (acc + 0.015))"
  using assms by (simp_all add: Let_def)

lemma pauseLoop_before:
  "spaced L zones \<Longrightarrow> a - acc < L \<Longrightarrow>
     pauseLoop zones (Num a) (Num acc) = Num (min 1 (a - acc))"
proof (induction zones arbitrary: L)
  case Nil
  then show ?case by simp
next
  case (Cons zone zones)
  from spaced_Cons [OF Cons.prems(1)] obtain c where
    c: "center zone = Num c" "pauseAmount zone = Num 0.015" "L \<le> c / 7000 - 0.01"
       "spaced (c / 7000 + 0.01) zones"
    by blast
  have lt: "a - acc < c / 7000 - 0.01" using c(3) Cons.prems(2) by simp
  then have "a - acc < c / 7000 + 0.01" by simp
  from Cons.IH [OF c(4) this] show ?case
    using pauseLoop_outside(1) [OF c(1,2) lt] by simp
qed

lemma pauseLoop_bounds:
  "spaced L zones \<Longrightarrow> L \<le> a - acc \<Longrightarrow>
     \<exists>y. pauseLoop zones (Num a) (Num acc) = Num y \<and> min 1 L \<le> y \<and> y \<le> 1"
proof (induction zones arbitrary: L acc)
  case Nil
  then show ?case by simp
next
  case (Cons zone zones)
  from spaced_Cons [OF Cons.prems(1)] obtain c where
    c: "center zone = Num c" "pauseAmount zone = Num 0.015" "L \<le> c / 7000 - 0.01"
       "c / 7000 + 0.01 \<le> 1" "spaced (c / 7000 + 0.01) zones"
    by blast
  consider (before) "a - acc < c / 7000 - 0.01"
    | (inside) "c / 7000 - 0.01 \<le> a - acc" "a - acc \<le> c / 7000 + 0.025"
    | (after) "c / 7000 + 0.025 < a - acc"
    by linarith
  then show ?case
  proof cases
    case before
    have "spaced (c / 7000 - 0.01) (zone # zones)" using c by simp
    from pauseLoop_before [OF this before] show ?thesis
      using Cons.prems(2) by auto
  next
    case inside
    from zoneOutput_bounds [OF inside] pauseLoop_inside [OF c(1,2) inside]
    show ?thesis using c(3,4) by auto
  next
    case after
    have "c / 7000 + 0.01 \<le> a - (acc + 0.015)" using after by simp
    from Cons.IH [OF c(5) this] obtain y where
      y: "pauseLoop zones (Num a) (Num (acc + 0.015)) = Num y" "min 1 (c / 7000 + 0.01) \<le> y" "y \<le> 1"
      by blast
    then show ?thesis using c(3) pauseLoop_outside(2) [OF c(1,2) after] by auto
  qed
qed

lemma pauseLoop_mono:
  "spaced L zones \<Longrightarrow> a1 \<le> a2 \<Longrightarrow>
     \<exists>y1 y2. pauseLoop zones (Num a1) (Num acc) = Num y1 \<and>
             pauseLoop zones (Num a2) (Num acc) = Num y2 \<and> y1 \<le> y2"
proof (induction zones arbitrary: L acc)
  case Nil
  then show ?case by simp
next
  case (Cons zone zones)
  from spaced_Cons [OF Cons.prems(1)] obtain c where
    c: "center zone = Num c" "pauseAmount zone = Num 0.015" "L \<le> c / 7000 - 0.01"
       "c / 7000 + 0.01 \<le> 1" "spaced (c / 7000 + 0.01) zones"
    by blast
  have sp: "spaced (c / 7000 - 0.01) (zone # zones)" using c by simp
  consider (after) "c / 7000 + 0.025 < a1 - acc"
    | (before) "a1 - acc < c / 7000 - 0.01"
    | (inside) "c / 7000 - 0.01 \<le> a1 - acc" "a1 - acc \<le> c / 7000 + 0.025"
    by linarith
  then show ?case
  proof cases
    case after
    then have after2: "c / 7000 + 0.025 < a2 - acc" using Cons.prems(2) by simp
    from Cons.IH [OF c(5) Cons.prems(2), of "acc + 0.015"]
    show ?thesis
      using pauseLoop_outside(2) [OF c(1,2) after] pauseLoop_outside(2) [OF c(1,2) after2]
      by simp
  next
    case before
    have v1: "pauseLoop (zone # zones) (Num a1) (Num acc) = Num (min 1 (a1 - acc))"
      by (rule pauseLoop_before [OF sp before])
    have "c / 7000 - 0.01 \<le> a2 - acc \<or> a2 - acc < c / 7000 - 0.01" by linarith
    then show ?thesis
    proof
      assume ge: "c / 7000 - 0.01 \<le> a2 - acc"
      from pauseLoop_bounds [OF sp ge] obtain y2 where
        y2: "pauseLoop (zone # zones) (Num a2) (Num acc) = Num y2" "min 1 (c / 7000 - 0.01) \<le> y2"
        by blast
      have "min 1 (a1 - acc) \<le> y2" using y2(2) before by simp
      then show ?thesis using v1 y2(1) by simp
    next
      assume lt: "a2 - acc < c / 7000 - 0.01"
      have "pauseLoop (zone # zones) (Num a2) (Num acc) = Num (min 1 (a2 - acc))"
        by (rule pauseLoop_before [OF sp lt])
      then show ?thesis using v1 Cons.prems(2) by simp
    qed
  next
    case inside
    note v1 = pauseLoop_inside [OF c(1,2) inside, of zones]
    have "a2 - acc \<le> c / 7000 + 0.025 \<or> c / 7000 + 0.025 < a2 - acc" by linarith
    then show ?thesis
    proof
      assume le: "a2 - acc \<le> c / 7000 + 0.025"
      have ge: "c / 7000 - 0.01 \<le> a2 - acc" using inside(1) Cons.prems(2) by simp
      have "a1 - acc \<le> a2 - acc" using Cons.prems(2) by simp
      from zoneOutput_mono [OF inside(1) this]
      show ?thesis using v1 pauseLoop_inside [OF c(1,2) ge le, of zones] by simp
    next
      assume after2: "c / 7000 + 0.025 < a2 - acc"
      have "c / 7000 + 0.01 \<le> a2 - (acc + 0.015)" using after2 by simp
      from pauseLoop_bounds [OF c(5) this] obtain y2 where
        y2: "pauseLoop zones (Num a2) (Num (acc + 0.015)) = Num y2" "min 1 (c / 7000 + 0.01) \<le> y2"
        by blast
      have "zoneOutput (c / 7000) (a1 - acc) \<le> y2"
        using zoneOutput_bounds [OF inside] y2(2) c(4) by simp
      then show ?thesis
        using v1 y2(1) pauseLoop_outside(2) [OF c(1,2) after2, of zones] by simp
    qed
  qed
qed


lemma spaced_PAUSE_ZONES: "spaced 0 PAUSE_ZONES"
  by (simp add: PAUSE_ZONES_def)

lemma totalPauseAmount:
  "foldl (\<lambda>sum zone. sum + pauseAmount zone) (Num 0) PAUSE_ZONES = Num 0.105"
  by (simp add: PAUSE_ZONES_def)

lemma applyScrollPauses_Num:
  "applyScrollPauses (Num r) = pauseLoop PAUSE_ZONES (Num (r * 1.105)) (Num 0)"
  by (simp add: applyScrollPauses_def applyScrollPausesWith_def totalPauseAmount)

lemma applyScrollPauses_mono_real:
  assumes "r1 \<le> r2"
  shows "\<exists>y1 y2. applyScrollPauses (Num r1) = Num y1 \<and> applyScrollPauses (Num r2) = Num y2 \<and> y1 \<le> y2"
proof -
  have "r1 * 1.105 \<le> r2 * 1.105" using assms by simp
  from pauseLoop_mono [OF spaced_PAUSE_ZONES this, of "0"]
  show ?thesis by (simp add: applyScrollPauses_Num)
qed

lemma applyScrollPauses_range:
  assumes "0 \<le> r"
  shows "\<exists>y. applyScrollPauses (Num r) = Num y \<and> 0 \<le> y \<and> y \<le> 1"
proof -
  have "0 \<le> r * 1.105 - 0" using assms by simp
  from pauseLoop_bounds [OF spaced_PAUSE_ZONES this]
  show ?thesis by (simp add: applyScrollPauses_Num)
qed

section \<open>Claims about the pause-zone transform\<close>

text \<open>
  C3: \<open>applyScrollPauses\<close> is monotonically non-decreasing: for raw progress values
  \<open>r1 \<le> r2\<close> in \<open>[0, 1]\<close> the JavaScript comparison
  \<open>applyScrollPauses(r1) <= applyScrollPauses(r2)\<close> is true, so no band of a pause zone
  produces a backward jump.
\<close>

theorem applyScrollPauses_monotone:
  assumes "0 \<le> r1" and "r1 \<le> r2" and "r2 \<le> 1"
  shows "applyScrollPauses (Num r1) \<le> applyScrollPauses (Num r2)"
proof -
  from applyScrollPauses_mono_real [OF assms(2)] obtain y1 y2 where
    "applyScrollPauses (Num r1) = Num y1" "applyScrollPauses (Num r2) = Num y2" "y1 \<le> y2"
    by blast
  then show ?thesis by simp
qed

text \<open>C3, at the raw progress values 0.1 and 0.11, both inside the band of the first zone.\<close>

theorem applyScrollPauses_monotone_witness:
  "applyScrollPauses (Num 0.1) \<le> applyScrollPauses (Num 0.11)"
  using applyScrollPauses_monotone [of "0.1" "0.11"] by simp

text \<open>
  C7 as stated fails: the raw progress whose scaled position is exactly \<open>750/7000\<close> lies in
  the entering part of the band and is mapped to \<open>750/7000 - 0.007\<close>, both with the seven
  configured zones and with the first zone alone.
\<close>

theorem zone_center_counterexample:
  "applyScrollPauses (Num (750 / 7000 / 1.105)) \<noteq> Num (750 / 7000) \<and>
   applyScrollPausesWith [\<lparr>center = Num 750, pauseAmount = Num 0.015\<rparr>] (Num (750 / 7000 / 1.015))
     \<noteq> Num (750 / 7000)"
  by (simp add: applyScrollPauses_def applyScrollPausesWith_def PAUSE_ZONES_def)

text \<open>
  C7, amended: a raw progress whose scaled position lies between \<open>750/7000 + 0.001\<close> and
  \<open>750/7000 + 0.014\<close>, inside the middle 40% of the band (the midpoint of the band is
  \<open>750/7000 + 0.0075\<close>), is mapped to exactly \<open>zoneProgressCenter = 750/7000\<close>.
\<close>

theorem zone_hold_band:
  assumes "750 / 7000 + 0.001 \<le> a" and "a \<le> 750 / 7000 + 0.014"
  shows "applyScrollPauses (Num (a / 1.105)) = Num (750 / 7000) \<and>
         applyScrollPausesWith [\<lparr>center = Num 750, pauseAmount = Num 0.015\<rparr>] (Num (a / 1.015))
           = Num (750 / 7000)"
  using assms by (simp add: applyScrollPauses_def applyScrollPausesWith_def PAUSE_ZONES_def)

text \<open>C7, amended, at the midpoint of the band.\<close>

theorem zone_hold_band_witness:
  "applyScrollPauses (Num ((750 / 7000 + 0.0075) / 1.105)) = Num (750 / 7000) \<and>
   applyScrollPausesWith [\<lparr>center = Num 750, pauseAmount = Num 0.015\<rparr>]
     (Num ((750 / 7000 + 0.0075) / 1.015)) = Num (750 / 7000)"
  using zone_hold_band [of "750 / 7000 + 0.0075"] by simp

section \<open>Claims about smoothing\<close>

lemma powi_powr: "(2::real) powi e = 2 powr real_of_int e"
  by (simp add: powr_real_of_int')

lemma binary64_eval:
  assumes "2 powi e \<le> \<bar>x\<bar>" and "\<bar>x\<bar> < 2 powi (e + 1)" and "- 1022 \<le> e"
    and "roundHalfEven (x / 2 powi (e - 52)) = n"
    and "\<bar>of_int n * 2 powi (e - 52)\<bar> < (2::real) ^ 1024"
  shows "binary64 x = Num (of_int n * 2 powi (e - 52))"
proof -
  have "(0::real) < 2 powi e" by simp
  then have pos: "0 < \<bar>x\<bar>" using assms(1) by linarith
  then have "\<lfloor>log 2 \<bar>x\<bar>\<rfloor> = e"
    using assms(1,2) by (simp add: floor_log_eq_powr_iff powi_powr)
  then have "max \<lfloor>log 2 \<bar>x\<bar>\<rfloor> (- 1022) = e" using assms(3) by simp
  then show ?thesis using pos assms(4,5) by (simp add: binary64_def Let_def)
qed

lemma lit_913: "binary64 91.3 = Num (6424666343420723 / 2 ^ 46)"
  using binary64_eval [of 6 "91.3" 6424666343420723]
  by (simp add: roundHalfEven_def Let_def)



lemma roundHalfEven_upper: "of_int (roundHalfEven y) \<le> y + 1 / 2"
  unfolding roundHalfEven_def Let_def by (auto; linarith)

lemma roundHalfEven_nonneg: "0 \<le> y \<Longrightarrow> 0 \<le> roundHalfEven y"
  unfolding roundHalfEven_def Let_def by auto

lemma binary64_1: "binary64 1 = Num 1"
  using binary64_eval [of 0 1 "2 ^ 52"] by (simp add: roundHalfEven_def Let_def)

lemma binary64_m2: "binary64 (- 2) = Num (- 2)"
  using binary64_eval [of 1 "- 2" "- (2 ^ 52)"] by (simp add: roundHalfEven_def Let_def)

lemma binary64_m120: "binary64 (- 120) = Num (- 120)"
  using binary64_eval [of 6 "- 120" "- (120 * 2 ^ 46)"] by (simp add: roundHalfEven_def Let_def)


lemma binary64_tiny:
  assumes "0 < x" and "x \<le> 1 / 2 ^ 55"
  shows "\<exists>r. binary64 x = Num r \<and> 0 \<le> r \<and> r \<le> 1 / 2 ^ 54"
proof -
  define e where "e = max \<lfloor>log 2 \<bar>x\<bar>\<rfloor> (- 1022)"
  define u :: real where "u = 2 powi (e - 52)"
  define r where "r = of_int (roundHalfEven (x / u)) * u"
  have low: "\<lfloor>log 2 \<bar>x\<bar>\<rfloor> \<le> - 55"
  proof (rule ccontr)
    assume "\<not> \<lfloor>log 2 \<bar>x\<bar>\<rfloor> \<le> - 55"
    then have "- 54 \<le> \<lfloor>log 2 \<bar>x\<bar>\<rfloor>" by simp
    then have "(2::real) powi (- 54) \<le> 2 powi \<lfloor>log 2 \<bar>x\<bar>\<rfloor>"
      by (intro power_int_increasing) simp_all
    moreover have "2 powi \<lfloor>log 2 \<bar>x\<bar>\<rfloor> \<le> \<bar>x\<bar>"
      using assms(1) floor_log_eq_powr_iff [of "\<bar>x\<bar>" 2 "\<lfloor>log 2 \<bar>x\<bar>\<rfloor>"]
      by (simp add: powi_powr)
    ultimately have "(2::real) powi (- 54) \<le> x" using assms(1) by simp
    then show False using assms(2) by simp
  qed
  have "e \<le> - 55" unfolding e_def using low by (rule max.boundedI) simp
  then have "e - 52 \<le> - 107" by simp
  then have "u \<le> 2 powi (- 107)" unfolding u_def by (intro power_int_increasing) simp_all
  then have u: "0 < u" "u \<le> 1 / 2 ^ 107" by (simp_all add: u_def)
  have "0 \<le> x / u" using assms(1) u(1) by simp
  then have "0 \<le> roundHalfEven (x / u)" by (rule roundHalfEven_nonneg)
  then have r0: "0 \<le> r" using u(1) by (simp add: r_def)
  have "r \<le> (x / u + 1 / 2) * u"
    unfolding r_def using roundHalfEven_upper [of "x / u"] u(1) by (intro mult_right_mono) simp_all
  also have "\<dots> = x + u / 2" using u(1) by (simp add: algebra_simps)
  also have "\<dots> \<le> 1 / 2 ^ 55 + 1 / 2 ^ 107 / 2" using assms(2) u(2) by (intro add_mono) simp_all
  also have "\<dots> \<le> 1 / 2 ^ 54" by simp
  finally have r1: "r \<le> 1 / 2 ^ 54" .
  have "r \<le> 1" using r1 by simp
  then have fin: "\<not> 2 ^ 1024 \<le> \<bar>r\<bar>" using r0 by simp
  have "binary64 x = (if 2 ^ 1024 \<le> \<bar>r\<bar> then (if 0 < x then PosInf else NegInf) else Num r)"
    using assms(1) by (simp add: binary64_def Let_def r_def u_def e_def)
  then have "binary64 x = Num r" using fin by (simp only: if_False)
  with r0 r1 show ?thesis by blast
qed

lemma binary64_below_one:
  assumes "0 \<le> d" and "d \<le> 1 / 2 ^ 54"
  shows "binary64 (1 - d) = Num 1"
proof (cases "d = 0")
  case True
  then show ?thesis by (simp add: binary64_1)
next
  case False
  then have d: "0 < d" using assms(1) by simp
  have y: "(1 - d) / 2 powi (- 1 - 52) = 2 ^ 53 - d * 2 ^ 53"
    by (simp add: power_int_minus field_simps)
  have d53: "0 < d * 2 ^ 53" "d * 2 ^ 53 \<le> 1 / 2" using d assms(2) by simp_all
  have flo: "\<lfloor>(2::real) ^ 53 - d * 2 ^ 53\<rfloor> = 2 ^ 53 - 1"
    using d53 by (intro floor_unique) simp_all
  have odd: "odd ((2::int) ^ 53 - 1)" by simp
  have "roundHalfEven ((1 - d) / 2 powi (- 1 - 52)) = 2 ^ 53"
    unfolding y roundHalfEven_def Let_def flo using d53 odd by auto
  from binary64_eval [of "- 1" "1 - d" "2 ^ 53", OF _ _ _ this]
  show ?thesis using d assms(2) by simp
qed

lemma exp_minus_120: "exp (- 120 :: real) \<le> 1 / 2 ^ 55"
proof -
  have "(2::real) \<le> exp 1" using exp_ge_add_one_self [of "1::real"] by simp
  then have "(2::real) ^ 120 \<le> exp 1 ^ 120" by (intro power_mono) simp_all
  also have "\<dots> = exp (120 :: real)" using exp_of_nat_mult [of 120 "1::real"] by simp
  finally have "1 / exp (120 :: real) \<le> 1 / 2 ^ 120" by (intro divide_left_mono) simp_all
  moreover have "exp (- 120 :: real) = 1 / exp 120" by (simp add: exp_minus field_simps)
  moreover have "(1::real) / 2 ^ 120 \<le> 1 / 2 ^ 55" by simp
  ultimately show ?thesis by linarith
qed

lemma factor_rounds_to_one:
  "fl (Num 1 - fl (Math_exp (fl (fl (- Num 2 * Num 1) * Num 60)))) = Num 1"
proof -
  from binary64_tiny [OF _ exp_minus_120] obtain r where
    r: "binary64 (exp (- 120)) = Num r" "0 \<le> r" "r \<le> 1 / 2 ^ 54"
    by auto
  show ?thesis
    by (simp add: binary64_m2 binary64_m120 r(1) binary64_below_one [OF r(2,3)])
qed


lemma lit_108: "binary64 10.8 = Num (6079859496950170 / 2 ^ 49)"
  using binary64_eval [of 3 "10.8" 6079859496950170]
  by (simp add: roundHalfEven_def Let_def)

lemma binary64_difference:
  "binary64 (6079859496950170 / 2 ^ 49 - 6424666343420723 / 2 ^ 46) = Num (- 80.5)"
  using binary64_eval [of 6 "6079859496950170 / 2 ^ 49 - 6424666343420723 / 2 ^ 46"
      "- 5664683906301952"]
  by (simp add: roundHalfEven_def Let_def)

lemma binary64_m805: "binary64 (- 80.5) = Num (- 80.5)"
  using binary64_eval [of 6 "- 80.5" "- 5664683906301952"]
  by (simp add: roundHalfEven_def Let_def)

lemma binary64_sum:
  "binary64 (6424666343420723 / 2 ^ 46 + - 80.5) = Num (6079859496950168 / 2 ^ 49)"
  using binary64_eval [of 3 "6424666343420723 / 2 ^ 46 + - 80.5" 6079859496950168]
  by (simp add: roundHalfEven_def Let_def)

lemma smoothDamp_binary64_reaches_target:
  "smoothDamp_binary64 (Num 0) (Num 1) (Num 2) (Num 1) = Num 1"
  unfolding smoothDamp_binary64_def Let_def factor_rounds_to_one
  by (simp add: binary64_1)

lemma smoothDamp_binary64_passes_target:
  "smoothDamp_binary64 (binary64 91.3) (binary64 10.8) (Num 2) (Num 1)
     = Num (6079859496950168 / 2 ^ 49)"
  unfolding smoothDamp_binary64_def Let_def factor_rounds_to_one lit_913 lit_108
  by (simp only: Num_minus fl.simps binary64_difference times_number.simps mult_1_right
      binary64_m805 plus_number.simps binary64_sum)



section \<open>Claims about the scroll handler\<close>

text \<open>
  C10: when the container reference is null the handler returns at once: the scroll state,
  the timing variables and the four targets all keep their values.
\<close>

theorem handleScroll_without_container:
  assumes "containerElement s = None"
  shows "handleScroll w s = s"
  using assms by (simp add: handleScroll_def)

text \<open>C10, on the initial controller, whose container reference is null.\<close>

theorem handleScroll_without_container_witness:
  "handleScroll \<lparr>performance_now = Num 16, innerHeight = Num 800\<rparr> initialController
     = initialController"
  using handleScroll_without_container
    [of initialController "\<lparr>performance_now = Num 16, innerHeight = Num 800\<rparr>"]
  by (simp add: initialController_def)

text \<open>
  C9 as stated fails: with two equal timestamps the velocity is not left at its previous
  value 5, it is set to 0.
\<close>

theorem velocity_zero_delta_counterexample:
  "velocity (scrollState (handleScroll \<lparr>performance_now = Num 100, innerHeight = Num 800\<rparr>
      (initialController
         \<lparr>scrollState := \<lparr>progress = Num 0.5, cameraZ = Num 3500, currentSection = ''mural'',
                          velocity = Num 5\<rparr>,
          containerElement := Some \<lparr>rect_top = Num (- 1600), offsetHeight = Num 4000\<rparr>,
          lastScrollTime := Num 100, lastProgress := Num 0.5\<rparr>)))
   \<noteq> Num 5"
  by (simp add: handleScroll_def initialController_def Let_def)

text \<open>
  C9, amended: with the timestamps \<open>t0\<close> of the previous and \<open>t1\<close> of this invocation,
  the velocity is \<open>(progress - lastProgress) / \<Delta>t\<close> with \<open>\<Delta>t = (t1 - t0) / 1000\<close> when
  \<open>t0 < t1\<close>, and 0 otherwise.
\<close>

theorem velocity_guard:
  assumes "containerElement s = Some el"
    and "performance_now w = Num t1" and "lastScrollTime s = Num t0"
  shows "velocity (scrollState (handleScroll w s)) =
           (if t0 < t1
            then (progress (scrollState (handleScroll w s)) - lastProgress s) / Num ((t1 - t0) / 1000)
            else Num 0)"
  using assms by (simp add: handleScroll_def Let_def)

text \<open>C9, amended, at two equal timestamps.\<close>

theorem velocity_guard_witness:
  "velocity (scrollState (handleScroll \<lparr>performance_now = Num 100, innerHeight = Num 800\<rparr>
      (initialController
         \<lparr>containerElement := Some \<lparr>rect_top = Num (- 1600), offsetHeight = Num 4000\<rparr>,
          lastScrollTime := Num 100, lastProgress := Num 0.5\<rparr>))) = Num 0"
  using velocity_guard [of "initialController
         \<lparr>containerElement := Some \<lparr>rect_top = Num (- 1600), offsetHeight = Num 4000\<rparr>,
          lastScrollTime := Num 100, lastProgress := Num 0.5\<rparr>"
       "\<lparr>rect_top = Num (- 1600), offsetHeight = Num 4000\<rparr>"
       "\<lparr>performance_now = Num 100, innerHeight = Num 800\<rparr>" 100 100]
  by (simp add: initialController_def)

text \<open>
  C4 as stated fails: scrolled to the end, the camera depth is 7000, outside the falling
  window \<open>[5100, 5400]\<close>, and the target Y is -500, not 0.
\<close>

theorem targetY_after_fall_counterexample:
  "cameraZ (scrollState (handleScroll \<lparr>performance_now = Num 16, innerHeight = Num 800\<rparr>
      (initialController
         \<lparr>containerElement := Some \<lparr>rect_top = Num (- 3200), offsetHeight = Num 4000\<rparr>\<rparr>)))
     = Num 7000 \<and>
   targetY (handleScroll \<lparr>performance_now = Num 16, innerHeight = Num 800\<rparr>
      (initialController
         \<lparr>containerElement := Some \<lparr>rect_top = Num (- 3200), offsetHeight = Num 4000\<rparr>\<rparr>))
     \<noteq> Num 0"
  by (simp add: handleScroll_def initialController_def rawProgressOf_def Let_def
      applyScrollPauses_def applyScrollPausesWith_def PAUSE_ZONES_def yTargetOf_def)

text \<open>
  C4, amended: the target field of view is 50 for a camera depth outside \<open>[4100, 4700)\<close>,
  the target roll is 0 outside \<open>[6300, 6600)\<close>, the target Y is 0 below 5100 and stays at
  -500 above 5400.
\<close>

theorem targets_outside_windows:
  assumes "containerElement s = Some el"
    and "cameraZ (scrollState (handleScroll w s)) = Num z"
  shows "(z < 4100 \<or> 4700 \<le> z \<longrightarrow> targetFov (handleScroll w s) = Num 50) \<and>
         (z < 6300 \<or> 6600 \<le> z \<longrightarrow> targetRotationZ (handleScroll w s) = Num 0) \<and>
         (z < 5100 \<longrightarrow> targetY (handleScroll w s) = Num 0) \<and>
         (5400 < z \<longrightarrow> targetY (handleScroll w s) = Num (- 500))"
  using assms
  by (simp add: handleScroll_def Let_def fovTargetOf_def yTargetOf_def rotationTargetOf_def)

text \<open>C4, amended, scrolled to the end (camera depth 7000).\<close>

theorem targets_outside_windows_witness:
  "targetFov (handleScroll \<lparr>performance_now = Num 16, innerHeight = Num 800\<rparr>
      (initialController
         \<lparr>containerElement := Some \<lparr>rect_top = Num (- 3200), offsetHeight = Num 4000\<rparr>\<rparr>))
     = Num 50 \<and>
   targetRotationZ (handleScroll \<lparr>performance_now = Num 16, innerHeight = Num 800\<rparr>
      (initialController
         \<lparr>containerElement := Some \<lparr>rect_top = Num (- 3200), offsetHeight = Num 4000\<rparr>\<rparr>))
     = Num 0 \<and>
   targetY (handleScroll \<lparr>performance_now = Num 16, innerHeight = Num 800\<rparr>
      (initialController
         \<lparr>containerElement := Some \<lparr>rect_top = Num (- 3200), offsetHeight = Num 4000\<rparr>\<rparr>))
     = Num (- 500)"
proof -
  have z: "cameraZ (scrollState (handleScroll \<lparr>performance_now = Num 16, innerHeight = Num 800\<rparr>
      (initialController
         \<lparr>containerElement := Some \<lparr>rect_top = Num (- 3200), offsetHeight = Num 4000\<rparr>\<rparr>)))
     = Num 7000"
    by (simp add: handleScroll_def initialController_def rawProgressOf_def Let_def
        applyScrollPauses_def applyScrollPausesWith_def PAUSE_ZONES_def)
  have c: "containerElement (initialController
         \<lparr>containerElement := Some \<lparr>rect_top = Num (- 3200), offsetHeight = Num 4000\<rparr>\<rparr>)
       = Some \<lparr>rect_top = Num (- 3200), offsetHeight = Num 4000\<rparr>"
    by simp
  from targets_outside_windows [OF c z] show ?thesis by simp
qed

text \<open>
  C1: evaluation at the failing input. With the container present in a viewport of
  height 0 (the container, five viewports tall, then has height 0 too) and at the top of
  the page, the quotient is \<open>0/0\<close>: \<open>NaN\<close> goes through the clamp and the pause zones into
  \<open>progress\<close>, \<open>cameraZ\<close> and the depth target. Scrolled by 100 with the same heights, the
  raw progress is 1, not 0.
\<close>

theorem zero_distance_stores_NaN:
  "progress (scrollState (handleScroll \<lparr>performance_now = Num 16, innerHeight = Num 0\<rparr>
      (initialController
         \<lparr>containerElement := Some \<lparr>rect_top = Num 0, offsetHeight = Num 0\<rparr>\<rparr>))) = NaN \<and>
   cameraZ (scrollState (handleScroll \<lparr>performance_now = Num 16, innerHeight = Num 0\<rparr>
      (initialController
         \<lparr>containerElement := Some \<lparr>rect_top = Num 0, offsetHeight = Num 0\<rparr>\<rparr>))) = NaN \<and>
   targetZ (handleScroll \<lparr>performance_now = Num 16, innerHeight = Num 0\<rparr>
      (initialController
         \<lparr>containerElement := Some \<lparr>rect_top = Num 0, offsetHeight = Num 0\<rparr>\<rparr>)) = NaN \<and>
   rawProgressOf \<lparr>rect_top = Num (- 100), offsetHeight = Num 0\<rparr>
      \<lparr>performance_now = Num 16, innerHeight = Num 0\<rparr> = Num 1"
  by (simp add: handleScroll_def initialController_def rawProgressOf_def Let_def Math_min_def
      Math_max_def applyScrollPauses_def applyScrollPausesWith_def PAUSE_ZONES_def
      minus_number_def)

section \<open>The sections visited by a sweep\<close>

lemma sectionOf_index: "sectionOf (Num z) = SECTION_NAMES ! sectionIndex z"
  by (simp add: sectionOf_def sectionIndex_def SECTION_NAMES_def)

lemma sectionIndex_less: "sectionIndex z < 14"
  by (simp add: sectionIndex_def)

lemma sectionIndex_mono: "z1 \<le> z2 \<Longrightarrow> sectionIndex z1 \<le> sectionIndex z2"
  by (simp add: sectionIndex_def)

lemma applyScrollPauses_finite: "applyScrollPauses (Num r) = Num (realOf (applyScrollPauses (Num r)))"
  using applyScrollPauses_mono_real [of r r] by auto

lemma progressIndex_mono: "r1 \<le> r2 \<Longrightarrow> progressIndex r1 \<le> progressIndex r2"
proof -
  assume "r1 \<le> r2"
  from applyScrollPauses_mono_real [OF this]
  have "realOf (applyScrollPauses (Num r1)) \<le> realOf (applyScrollPauses (Num r2))" by auto
  then show ?thesis unfolding progressIndex_def by (intro sectionIndex_mono) simp
qed

lemma section_after_scroll:
  "currentSection (scrollState (handleScroll w (setContainerRef (Some el) s)))
     = sectionOf (applyScrollPauses (rawProgressOf el w) * Num 7000)"
  by (simp add: handleScroll_def setContainerRef_def Let_def)

lemma sectionsVisited_map:
  "sectionsVisited events s
     = map (\<lambda>(w, el). sectionOf (applyScrollPauses (rawProgressOf el w) * Num 7000)) events"
proof (induction events arbitrary: s)
  case Nil
  show ?case by simp
next
  case (Cons e events)
  obtain w el where e: "e = (w, el)" by (cases e)
  show ?case unfolding e by (simp add: Let_def section_after_scroll Cons.IH)
qed

lemma section_of_raw:
  "sectionOf (applyScrollPauses (Num r) * Num 7000) = SECTION_NAMES ! progressIndex r"
proof -
  have "applyScrollPauses (Num r) * Num 7000 = Num (realOf (applyScrollPauses (Num r)) * 7000)"
    by (subst applyScrollPauses_finite) simp
  then show ?thesis by (simp add: sectionOf_index progressIndex_def)
qed

lemma sectionsVisited_index:
  assumes "map (\<lambda>(w, el). rawProgressOf el w) events = map Num rs"
  shows "sectionsVisited events s = map (\<lambda>r. SECTION_NAMES ! progressIndex r) rs"
proof -
  have "map (\<lambda>(w, el). sectionOf (applyScrollPauses (rawProgressOf el w) * Num 7000)) events
        = map (\<lambda>x. sectionOf (applyScrollPauses x * Num 7000)) (map (\<lambda>(w, el). rawProgressOf el w) events)"
    by (simp add: comp_def case_prod_unfold)
  also have "\<dots> = map (\<lambda>r. sectionOf (applyScrollPauses (Num r) * Num 7000)) rs"
    unfolding assms by (simp add: comp_def)
  finally show ?thesis by (simp add: sectionsVisited_map section_of_raw)
qed

lemma distinct_SECTION_NAMES: "distinct SECTION_NAMES"
  by (simp add: SECTION_NAMES_def)

lemma length_SECTION_NAMES: "length SECTION_NAMES = 14"
  by (simp add: SECTION_NAMES_def)

lemma remdups_adj_map_inj_on:
  "inj_on f (set xs) \<Longrightarrow> remdups_adj (map f xs) = map f (remdups_adj xs)"
  by (induction xs rule: remdups_adj.induct) (auto simp: inj_on_def)

lemma distinct_remdups_adj_sorted:
  "sorted xs \<Longrightarrow> distinct (remdups_adj xs)"
  for xs :: "nat list"
  by (induction xs rule: remdups_adj.induct) (auto split: if_splits)

lemma subseq_sorted_below:
  fixes xs :: "nat list"
  assumes "sorted xs" and "distinct xs" and "\<forall>i\<in>set xs. i < n"
  shows "subseq xs [0..<n]"
proof -
  have "xs = filter (\<lambda>i. i \<in> set xs) [0..<n]"
  proof (rule sorted_distinct_set_unique)
    show "sorted (filter (\<lambda>i. i \<in> set xs) [0..<n])" by (rule sorted_wrt_filter) simp
    show "set xs = set (filter (\<lambda>i. i \<in> set xs) [0..<n])" using assms(3) by auto
  qed (use assms in simp_all)
  then have "subseq xs [0..<n] = subseq (filter (\<lambda>i. i \<in> set xs) [0..<n]) [0..<n]" by simp
  then show ?thesis by simp
qed

lemma runs_in_order:
  assumes "sorted rs"
  shows "subseq (remdups_adj (map (\<lambda>r. SECTION_NAMES ! progressIndex r) rs)) SECTION_NAMES"
proof -
  let ?is = "map progressIndex rs"
  have below: "\<forall>i\<in>set ?is. i < 14" by (simp add: progressIndex_def sectionIndex_less)
  have srt: "sorted ?is"
    using assms by (intro sorted_map_mono) (auto simp: mono_on_def progressIndex_mono)
  have "inj_on (nth SECTION_NAMES) (set ?is)"
    using below distinct_SECTION_NAMES
    by (auto simp: inj_on_def nth_eq_iff_index_eq length_SECTION_NAMES)
  then have "remdups_adj (map (nth SECTION_NAMES) ?is) = map (nth SECTION_NAMES) (remdups_adj ?is)"
    by (rule remdups_adj_map_inj_on)
  moreover have "subseq (remdups_adj ?is) [0..<14]"
    using srt below by (intro subseq_sorted_below distinct_remdups_adj_sorted) simp_all
  then have "subseq (map (nth SECTION_NAMES) (remdups_adj ?is)) (map (nth SECTION_NAMES) [0..<14])"
    by (rule subseq_map)
  moreover have "map (nth SECTION_NAMES) [0..<14] = SECTION_NAMES"
    using map_nth [of SECTION_NAMES] by (simp only: length_SECTION_NAMES)
  ultimately show ?thesis by (simp add: comp_def)
qed


lemma progressIndex_samples:
  "map progressIndex sectionSamples = [0, 1, 2, 3, 4, 5, 6, 7, 8, 9, 10, 11, 12, 13]"
  by (simp add: sectionSamples_def progressIndex_def sectionIndex_def applyScrollPauses_Num
      PAUSE_ZONES_def)

lemma progressIndex_samples_end:
  "map (\<lambda>l. progressIndex (l + 1 / 16)) sectionSamples
     = [0, 1, 2, 3, 4, 5, 6, 7, 8, 9, 10, 11, 12, 13]"
  by (simp add: sectionSamples_def progressIndex_def sectionIndex_def applyScrollPauses_Num
      PAUSE_ZONES_def)

lemma sweep_hits_interval:
  fixes rs :: "real list"
  assumes "rs \<noteq> []" and "hd rs \<le> lo" and "hi \<le> last rs" and "lo \<le> hi"
    and "successively (\<lambda>a b. b - a \<le> hi - lo) rs"
  shows "\<exists>r\<in>set rs. lo \<le> r \<and> r \<le> hi"
  using assms
proof (induction rs rule: list_nonempty_induct)
  case (single x)
  then show ?case by simp
next
  case (cons x rs)
  obtain y rest where rs: "rs = y # rest" using cons.hyps by (cases rs) auto
  have gap: "y - x \<le> hi - lo" and succ: "successively (\<lambda>a b. b - a \<le> hi - lo) rs"
    using cons.prems(4) by (simp_all add: rs)
  show ?case
  proof (cases "y \<le> lo")
    case True
    then have "hd rs \<le> lo" by (simp add: rs)
    moreover have "hi \<le> last rs" using cons.prems(2) cons.hyps by simp
    ultimately have "\<exists>r\<in>set rs. lo \<le> r \<and> r \<le> hi"
      using cons.IH cons.prems(3) succ by blast
    then show ?thesis by auto
  next
    case False
    have "x \<le> lo" using cons.prems(1) by simp
    then have "lo \<le> y \<and> y \<le> hi" using False gap by linarith
    then show ?thesis by (auto simp: rs)
  qed
qed

lemma sweep_visits_all:
  assumes "rs \<noteq> []" and "hd rs = 0" and "last rs = 1"
    and "successively (\<lambda>a b. b - a \<le> 1 / 16) rs"
  shows "set SECTION_NAMES \<subseteq> set (map (\<lambda>r. SECTION_NAMES ! progressIndex r) rs)"
proof -
  have hit: "SECTION_NAMES ! progressIndex l \<in> set (map (\<lambda>r. SECTION_NAMES ! progressIndex r) rs)"
    if l: "l \<in> set sectionSamples" for l
  proof -
    have bounds: "0 \<le> l" "l + 1 / 16 \<le> 1"
      using l by (auto simp: sectionSamples_def)
    have "map (\<lambda>l. progressIndex (l + 1 / 16)) sectionSamples = map progressIndex sectionSamples"
      by (simp only: progressIndex_samples progressIndex_samples_end)
    then have same: "progressIndex (l + 1 / 16) = progressIndex l"
      using l by (simp only: map_eq_conv)
    have "successively (\<lambda>a b. b - a \<le> (l + 1 / 16) - l) rs" using assms(4) by simp
    from sweep_hits_interval [OF assms(1) _ _ _ this]
    obtain r where r: "r \<in> set rs" "l \<le> r" "r \<le> l + 1 / 16"
      using bounds assms(2,3) by auto
    have "progressIndex l \<le> progressIndex r" "progressIndex r \<le> progressIndex (l + 1 / 16)"
      using r by (simp_all add: progressIndex_mono)
    then have eq: "progressIndex r = progressIndex l" using same by simp
    have "(\<lambda>r. SECTION_NAMES ! progressIndex r) r \<in> (\<lambda>r. SECTION_NAMES ! progressIndex r) ` set rs"
      using r(1) by (rule imageI)
    then show ?thesis by (simp add: eq)
  qed
  have "SECTION_NAMES = map (nth SECTION_NAMES) (map progressIndex sectionSamples)"
    by (simp only: progressIndex_samples) (simp add: SECTION_NAMES_def)
  then have "set SECTION_NAMES = set (map (nth SECTION_NAMES) (map progressIndex sectionSamples))"
    by (rule arg_cong)
  then have "set SECTION_NAMES = (\<lambda>l. SECTION_NAMES ! progressIndex l) ` set sectionSamples"
    by (simp only: set_map image_image)
  then show ?thesis using hit by auto
qed

lemma subseq_all_of_distinct:
  assumes "subseq xs ys" and "distinct ys" and "set ys \<subseteq> set xs"
  shows "xs = ys"
proof -
  have "length ys = card (set ys)" using assms(2) by (simp add: distinct_card)
  also have "\<dots> \<le> card (set xs)" using assms(3) by (simp add: card_mono)
  also have "\<dots> \<le> length xs" by (rule card_length)
  finally have "length ys \<le> length xs" .
  moreover have "length xs \<le> length ys" using assms(1) by (rule list_emb_length)
  ultimately show ?thesis using assms(1) by (intro subseq_same_length) simp_all
qed

text \<open>
  C2: let the handler be invoked at raw progress values \<open>rs\<close> that never decrease. Then the
  sequence of values of \<open>currentSection\<close>, with repetitions of the same value merged, is a
  subsequence of the 14 configured names: every section is one contiguous run, the runs are
  in ascending breakpoint order and no section comes back. If moreover the sweep starts at
  0, ends at 1 and never advances by more than 1/16, no section is skipped: the merged
  sequence is exactly portal, eventX, vortex, battle, curtain, spotlight, paintTunnel,
  mural, dollyZoom, unveil, falling, beatTheStreet, glitch, parody.
\<close>

theorem sections_visited_in_order:
  assumes "map (\<lambda>(w, el). rawProgressOf el w) events = map Num rs" and "sorted rs"
  shows "subseq (remdups_adj (sectionsVisited events s)) SECTION_NAMES \<and>
         (rs \<noteq> [] \<and> hd rs = 0 \<and> last rs = 1 \<and> successively (\<lambda>a b. b - a \<le> 1 / 16) rs
            \<longrightarrow> remdups_adj (sectionsVisited events s) = SECTION_NAMES)"
proof -
  have v: "sectionsVisited events s = map (\<lambda>r. SECTION_NAMES ! progressIndex r) rs"
    by (rule sectionsVisited_index [OF assms(1)])
  have order: "subseq (remdups_adj (sectionsVisited events s)) SECTION_NAMES"
    unfolding v by (rule runs_in_order [OF assms(2)])
  moreover have "remdups_adj (sectionsVisited events s) = SECTION_NAMES"
    if "rs \<noteq> []" "hd rs = 0" "last rs = 1" "successively (\<lambda>a b. b - a \<le> 1 / 16) rs"
  proof (rule subseq_all_of_distinct [OF order distinct_SECTION_NAMES])
    show "set SECTION_NAMES \<subseteq> set (remdups_adj (sectionsVisited events s))"
      unfolding v using sweep_visits_all [OF that] by simp
  qed
  ultimately show ?thesis by blast
qed

lemma upt_17: "[0..<Suc 16] = [0, 1, 2, 3, 4, 5, 6, 7, 8, 9, 10, 11, 12, 13, 14, 15, 16]"
  by (simp add: upt_rec)

lemma linearSweep_raw:
  "map (\<lambda>(w, el). rawProgressOf el w) (linearSweep 16)
     = map Num [0, 1/16, 2/16, 3/16, 4/16, 5/16, 6/16, 7/16, 8/16, 9/16, 10/16, 11/16, 12/16,
                13/16, 14/16, 15/16, 1]"
  unfolding linearSweep_def upt_17 by (simp add: rawProgressOf_def)

lemma linearSweep_steps:
  "sorted [0, 1/16, 2/16, 3/16, 4/16, 5/16, 6/16, 7/16, 8/16, 9/16, 10/16, 11/16, 12/16,
                13/16, 14/16, 15/16, (1::real)]"
  "successively (\<lambda>a b. b - a \<le> 1 / 16) [0, 1/16, 2/16, 3/16, 4/16, 5/16, 6/16, 7/16, 8/16, 9/16, 10/16, 11/16, 12/16,
                13/16, 14/16, 15/16, (1::real)]"
  by simp_all

text \<open>C2, on the linear sweep in 16 steps from the initial state.\<close>

theorem sections_visited_in_order_witness:
  "subseq (remdups_adj (sectionsVisited (linearSweep 16) initialController)) SECTION_NAMES \<and>
   remdups_adj (sectionsVisited (linearSweep 16) initialController) = SECTION_NAMES"
proof -
  note t = sections_visited_in_order [OF linearSweep_raw linearSweep_steps(1), of initialController]
  have fine: "[0, 1/16, 2/16, 3/16, 4/16, 5/16, 6/16, 7/16, 8/16, 9/16, 10/16, 11/16, 12/16,
                13/16, 14/16, 15/16, (1::real)] \<noteq> [] \<and>
      hd [0, 1/16, 2/16, 3/16, 4/16, 5/16, 6/16, 7/16, 8/16, 9/16, 10/16, 11/16, 12/16,
                13/16, 14/16, 15/16, (1::real)] = 0 \<and>
      last [0, 1/16, 2/16, 3/16, 4/16, 5/16, 6/16, 7/16, 8/16, 9/16, 10/16, 11/16, 12/16,
                13/16, 14/16, 15/16, (1::real)] = 1 \<and>
      successively (\<lambda>a b. b - a \<le> 1 / 16)
         [0, 1/16, 2/16, 3/16, 4/16, 5/16, 6/16, 7/16, 8/16, 9/16, 10/16, 11/16, 12/16,
                13/16, 14/16, 15/16, (1::real)]"
    using linearSweep_steps(2) by simp
  from t have order: "subseq (remdups_adj (sectionsVisited (linearSweep 16) initialController))
      SECTION_NAMES"
    by (rule conjunct1)
  from t [THEN conjunct2] fine
  have "remdups_adj (sectionsVisited (linearSweep 16) initialController) = SECTION_NAMES"
    by (rule mp)
  with order show ?thesis by (rule conjI)
qed

section \<open>The range of the stored progress\<close>

lemma rawProgressOf_range:
  assumes "rect_top el = Num t" and "offsetHeight el = Num h" and "innerHeight w = Num v"
    and "t \<noteq> 0 \<or> h \<noteq> v"
  shows "\<exists>r. rawProgressOf el w = Num r \<and> 0 \<le> r \<and> r \<le> 1"
  using assms by (auto simp: rawProgressOf_def Let_def Math_min_def Math_max_def)

text \<open>
  With finite readings and unless the container is as tall as the viewport and exactly at
  the top of it, the stored progress is in \<open>[0, 1]\<close> and the stored depth is 7000 times it.
\<close>

lemma handleScroll_progress_range:
  assumes "containerElement s = Some el"
    and "rect_top el = Num t" and "offsetHeight el = Num h" and "innerHeight w = Num v"
    and "t \<noteq> 0 \<or> h \<noteq> v"
  shows "\<exists>p. progress (scrollState (handleScroll w s)) = Num p \<and> 0 \<le> p \<and> p \<le> 1 \<and>
             cameraZ (scrollState (handleScroll w s)) = Num (p * 7000)"
proof -
  from rawProgressOf_range [OF assms(2-5)] obtain r where
    r: "rawProgressOf el w = Num r" "0 \<le> r"
    by blast
  from applyScrollPauses_range [OF r(2)] obtain p where
    "applyScrollPauses (Num r) = Num p" "0 \<le> p" "p \<le> 1"
    by blast
  then show ?thesis using assms(1) r(1) by (simp add: handleScroll_def Let_def)
qed

text \<open>
  C6: evaluation at the failing input. The container is present, the viewport has height
  0 (and so has the container) and the page is at the top: the stored progress is \<open>NaN\<close>,
  which is neither at least 0 nor at most 1, and so is the stored depth.
\<close>

theorem zero_distance_progress_not_in_range:
  "\<not> (Num 0 \<le> progress (scrollState (handleScroll \<lparr>performance_now = Num 250, innerHeight = Num 0\<rparr>
          (initialController
             \<lparr>containerElement := Some \<lparr>rect_top = Num 0, offsetHeight = Num 0\<rparr>\<rparr>)))) \<and>
   \<not> (progress (scrollState (handleScroll \<lparr>performance_now = Num 250, innerHeight = Num 0\<rparr>
          (initialController
             \<lparr>containerElement := Some \<lparr>rect_top = Num 0, offsetHeight = Num 0\<rparr>\<rparr>))) \<le> Num 1) \<and>
   cameraZ (scrollState (handleScroll \<lparr>performance_now = Num 250, innerHeight = Num 0\<rparr>
          (initialController
             \<lparr>containerElement := Some \<lparr>rect_top = Num 0, offsetHeight = Num 0\<rparr>\<rparr>))) = NaN"
  by (simp add: handleScroll_def initialController_def rawProgressOf_def Let_def Math_min_def
      Math_max_def applyScrollPauses_def applyScrollPausesWith_def PAUSE_ZONES_def
      minus_number_def)

section \<open>Claims about the particle system\<close>

text \<open>
  C8: in a frame whose damped opacity is at or below 0.01 the mesh is made invisible and
  the loop over the particles does not run: the particles, the instance matrices, the
  update flag and the helper object are as before the frame.
\<close>

theorem invisible_frame_skips_particles:
  assumes "meshRef s = Some mesh" and "materialRef s = Some material"
    and "currentOpacity (particleFrame props camera_z delta s) \<le> Num 0.01"
  shows "\<exists>mesh'. meshRef (particleFrame props camera_z delta s) = Some mesh' \<and>
           \<not> visible mesh' \<and>
           instanceMatrix mesh' = instanceMatrix mesh \<and>
           needsUpdate mesh' = needsUpdate mesh \<and>
           particles (particleFrame props camera_z delta s) = particles s \<and>
           dummy (particleFrame props camera_z delta s) = dummy s"
proof -
  define opacity' where
    "opacity' = smoothDamp (currentOpacity s)
       (if Math_abs (camera_z - (zStart props + zEnd props) / Num 2)
             < (zEnd props - zStart props) / Num 2 + Num 400
        then baseOpacity props *
             easeOutQuart (Num 1 - Math_abs (camera_z - (zStart props + zEnd props) / Num 2) /
                                   ((zEnd props - zStart props) / Num 2 + Num 400))
        else Num 0)
       (Num 0.1) delta"
  have cur: "currentOpacity (particleFrame props camera_z delta s) = opacity'"
    using assms(1,2)
    by (simp add: particleFrame_def Let_def opacity'_def split: prod.splits)
  then have "opacity' \<le> Num 0.01" using assms(3) by simp
  then have hidden: "\<not> Num 0.01 < opacity'" by (rule number_le_not_less)
  show ?thesis
    using assms(1,2) hidden
    by (simp add: particleFrame_def Let_def opacity'_def [symmetric])
qed

text \<open>C8, on a one-particle system far from the camera.\<close>

theorem invisible_frame_skips_particles_witness:
  "currentOpacity (particleFrame demoProps (Num 5000) (Num (1 / 60)) demoParticles) \<le> Num 0.01 \<and>
   (\<exists>mesh'. meshRef (particleFrame demoProps (Num 5000) (Num (1 / 60)) demoParticles) = Some mesh' \<and>
           \<not> visible mesh' \<and>
           instanceMatrix mesh' = instanceMatrix (the (meshRef demoParticles)) \<and>
           needsUpdate mesh' = needsUpdate (the (meshRef demoParticles)) \<and>
           particles (particleFrame demoProps (Num 5000) (Num (1 / 60)) demoParticles)
             = particles demoParticles \<and>
           dummy (particleFrame demoProps (Num 5000) (Num (1 / 60)) demoParticles)
             = dummy demoParticles)"
proof -
  have op: "currentOpacity (particleFrame demoProps (Num 5000) (Num (1 / 60)) demoParticles)
              \<le> Num 0.01"
    by (simp add: particleFrame_def demoProps_def demoParticles_def Let_def smoothDamp_def)
  have m: "meshRef demoParticles = Some (the (meshRef demoParticles))"
    by (simp add: demoParticles_def)
  have mat: "materialRef demoParticles = Some (the (materialRef demoParticles))"
    by (simp add: demoParticles_def)
  from invisible_frame_skips_particles [OF m mat op] op show ?thesis by blast
qed

text \<open>With the opacity above the threshold the same system does move its particle.\<close>

lemma visible_frame_moves_particles:
  "particles (particleFrame demoProps (Num 500) (Num 1) (demoParticles\<lparr>currentOpacity := Num 0.6\<rparr>))
     = [\<lparr>position = \<lparr>vec_x = Num 1.25, vec_y = Num 1.75, vec_z = Num 3.125\<rparr>,
                    particle_velocity = \<lparr>vec_x = Num 0.25, vec_y = Num (- 0.25), vec_z = Num 0.125\<rparr>,
                    scale = Num 1\<rparr>]"
  by (simp add: particleFrame_def demoProps_def demoParticles_def Let_def smoothDamp_def
      easeOutQuart_def moveParticle_def addVec_def multiplyScalar_def)

end
